theory Spec2Isabelle
  imports Complex_Main "HOL-Library.Word"
begin

section \<open>JavaScript values\<close>

text \<open>
  A JavaScript string is a sequence of UTF-16 code units. String literals of
  \<^verbatim>\<open>src/index.mjs\<close> are ASCII and are written through \<open>lit\<close>.
\<close>

type_synonym jsstring = "16 word list"

definition lit :: "string \<Rightarrow> jsstring" where
  "lit s = map (\<lambda>c. of_nat (of_char c)) s"

text \<open>
  A number is a double: a finite value, \<open>NaN\<close> or an infinity. The conversions between
  strings and numbers (\<^verbatim>\<open>Number(s)\<close>, \<^verbatim>\<open>String(n)\<close>) are
  built-ins of the language and are parameters of the model.
\<close>

datatype jsnumber = Num real | NaN | PosInfinity | NegInfinity

text \<open>
  What \<^verbatim>\<open>JSON.parse\<close> returns. The members of an object are kept in the order of
  the text; a later member with the same key replaces an earlier one.
\<close>

datatype json =
    JNull
  | JBool bool
  | JNum jsnumber
  | JStr jsstring
  | JArr "json list"
  | JObj "(jsstring \<times> json) list"

text \<open>
  A thrown value, as a \<^verbatim>\<open>catch (error)\<close> clause can tell thrown values apart
  by reading \<^verbatim>\<open>error.message\<close>: an \<open>Error\<close> object with its message, a value
  other than \<open>null\<close> and \<open>undefined\<close> whose \<open>message\<close> property is undefined, and
  \<open>null\<close> and \<open>undefined\<close> themselves, on which the property read throws.
\<close>

datatype thrown = Error_js jsstring | Non_Error | Null_js | Undefined_js

text \<open>
  \<^verbatim>\<open>v?.k\<close> for a parsed value \<open>v\<close> and one of the keys the server reads
  (\<open>message\<close>, \<open>conversationHistory\<close>, \<open>role\<close>, \<open>content\<close>): the member of
  an object, and \<open>undefined\<close> (\<open>None\<close>) on \<open>null\<close>, on a primitive and on an array,
  whose prototypes define none of these keys.
\<close>

fun field :: "json \<Rightarrow> jsstring \<Rightarrow> json option" where
  "field (JObj kvs) k = map_of (rev kvs) k"
| "field _ k = None"

text \<open>
  \<^verbatim>\<open>String.prototype.trim\<close> removes the white space and line terminators of
  ECMAScript from both ends: TAB, LF, VT, FF, CR, SP, NBSP, U+1680, U+2000 to U+200A,
  U+2028, U+2029, U+202F, U+205F, U+3000 and U+FEFF.
\<close>

definition is_space :: "16 word \<Rightarrow> bool" where
  "is_space c \<longleftrightarrow>
     c \<in> {0x9, 0xA, 0xB, 0xC, 0xD, 0x20, 0xA0, 0x1680, 0x2028, 0x2029, 0x202F, 0x205F,
          0x3000, 0xFEFF}
     \<or> (0x2000 \<le> c \<and> c \<le> 0x200A)"

definition trim :: "jsstring \<Rightarrow> jsstring" where
  "trim s = rev (dropWhile is_space (rev (dropWhile is_space s)))"

text \<open>
  \<^verbatim>\<open>String(v)\<close> on a parsed value. An array is joined with commas, \<open>null\<close>
  elements giving the empty string. An object is converted by \<open>toString\<close> and then
  \<open>valueOf\<close>: the inherited \<open>toString\<close> gives \<^verbatim>\<open>[object Object]\<close>, but an own
  member named \<open>toString\<close> hides it, is not callable, \<open>valueOf\<close> returns no primitive,
  and the conversion throws a \<open>TypeError\<close> (the message is V8's).
\<close>

fun String_js :: "(jsnumber \<Rightarrow> jsstring) \<Rightarrow> json \<Rightarrow> thrown + jsstring"
  and join_js :: "(jsnumber \<Rightarrow> jsstring) \<Rightarrow> json list \<Rightarrow> thrown + jsstring" where
  "String_js n JNull = Inr (lit ''null'')"
| "String_js n (JBool b) = Inr (if b then lit ''true'' else lit ''false'')"
| "String_js n (JNum x) = Inr (n x)"
| "String_js n (JStr s) = Inr s"
| "String_js n (JArr xs) = join_js n xs"
| "String_js n (JObj kvs) =
     (if lit ''toString'' \<in> fst ` set kvs
      then Inl (Error_js (lit ''Cannot convert object to primitive value''))
      else Inr (lit ''[object Object]''))"
| "join_js n [] = Inr []"
| "join_js n (x # xs) =
     (case (if x = JNull then Inr [] else String_js n x) of
        Inl e \<Rightarrow> Inl e
      | Inr s \<Rightarrow>
          if xs = [] then Inr s
          else (case join_js n xs of
                  Inl e \<Rightarrow> Inl e
                | Inr r \<Rightarrow> Inr (s @ lit '','' @ r)))"

section \<open>The runtime the server runs on\<close>

text \<open>
  \<^verbatim>\<open>process.env\<close> after \<^verbatim>\<open>dotenv/config\<close> has loaded: the three variables
  the server reads, \<open>None\<close> when a variable is not set.
\<close>

record env =
  PORT :: "jsstring option"
  GOOGLE_AI_KEY :: "jsstring option"
  VERCEL_URL :: "jsstring option"

datatype stat_result = Stat_Error jsstring | Stats bool

text \<open>
  What a stream made by \<^verbatim>\<open>createReadStream\<close> does: it emits \<open>error\<close> without ever
  opening, or it opens, the bytes it reads are piped to the response, and it then ends
  (\<open>Opened bytes False\<close>) or emits \<open>error\<close> (\<open>Opened bytes True\<close>; with no byte read
  when the path is a directory).
\<close>

datatype stream = Open_Error | Opened "8 word list" bool

text \<open>
  The built-ins and Node modules the server calls, as parameters:
  \<^item> \<open>JSON_parse\<close>: the parsed value, or the message of the \<open>SyntaxError\<close>;
  \<^item> \<open>Number_js\<close> and \<open>Number_toString\<close>: \<^verbatim>\<open>Number(s)\<close> and the string of a number;
  \<^item> \<open>URL_pathname\<close>: \<^verbatim>\<open>new URL(input, base).pathname\<close>, or what the constructor throws;
  \<^item> \<open>extname\<close>, \<open>toLowerCase\<close>, \<open>join\<close>, \<open>cwd\<close>: \<^verbatim>\<open>node:path\<close> and the working directory;
  \<^item> \<open>stat\<close>: the error code that \<^verbatim>\<open>fs.stat\<close> passes to its callback, or
    \<open>Stats d\<close> with \<open>d\<close> the value of \<^verbatim>\<open>stats.isDirectory()\<close>;
  \<^item> \<open>createReadStream\<close>: what the stream on a path does;
  \<^item> \<open>listen\<close>: for a port that \<^verbatim>\<open>server.listen\<close> accepts and a host, the code of the
    \<open>error\<close> event that the server emits when it cannot bind (\<open>EADDRINUSE\<close>, \<open>EACCES\<close>),
    \<open>None\<close> when it is listening.
\<close>

record platform =
  JSON_parse :: "jsstring \<Rightarrow> jsstring + json"
  Number_js :: "jsstring \<Rightarrow> jsnumber"
  Number_toString :: "jsnumber \<Rightarrow> jsstring"
  URL_pathname :: "jsstring \<Rightarrow> jsstring \<Rightarrow> thrown + jsstring"
  extname :: "jsstring \<Rightarrow> jsstring"
  toLowerCase :: "jsstring \<Rightarrow> jsstring"
  join :: "jsstring list \<Rightarrow> jsstring"
  cwd :: jsstring
  stat :: "jsstring \<Rightarrow> stat_result"
  createReadStream :: "jsstring \<Rightarrow> stream"
  listen :: "jsnumber \<Rightarrow> jsstring \<Rightarrow> jsstring option"

text \<open>
  One entry of the history handed to \<^verbatim>\<open>model.startChat\<close>:
  \<^verbatim>\<open>{role, parts: [{text}]}\<close>, the parts given by their texts.
\<close>

record turn =
  role :: jsstring
  parts :: "jsstring list"

text \<open>
  The provider: \<^verbatim>\<open>model.startChat({history})\<close>, \<^verbatim>\<open>chat.sendMessage(message)\<close>,
  \<^verbatim>\<open>result.response\<close> and \<^verbatim>\<open>response.text()\<close> together, from the history and
  the message to the text, or to what one of the four throws.
\<close>

type_synonym provider = "turn list \<Rightarrow> jsstring \<Rightarrow> thrown + jsstring"

text \<open>The calls a request makes to the world outside the process, in order.\<close>

datatype effect =
    Provider_Call "turn list" jsstring
  | Fs_Stat jsstring
  | Fs_Open jsstring

section \<open>Startup\<close>





section \<open>Requests and responses\<close>

text \<open>
  The request as the handler reads it: method, request target, the \<open>Host\<close> and \<open>Origin\<close>
  headers, and the body, all chunks concatenated (\<open>Inl\<close> when the request stream emits
  \<open>error\<close> instead of \<open>end\<close>).
\<close>

record request =
  req_method :: jsstring
  url :: jsstring
  host :: "jsstring option"
  origin :: "jsstring option"
  data :: "thrown + jsstring"

text \<open>
  The response as it is sent: the status of its status line, its headers, and what was
  written to it, in order. \<open>Body_Json v\<close> stands for the text \<^verbatim>\<open>JSON.stringify(v)\<close>.
  A fresh response has status 200, no header and nothing written.
\<close>

datatype chunk =
    Body_Text jsstring
  | Body_Json json
  | Body_File "8 word list"

record response =
  statusCode :: nat
  headers :: "string \<rightharpoonup> jsstring"
  body :: "chunk list"

definition fresh :: response where
  "fresh = \<lparr>statusCode = 200, headers = Map.empty, body = []\<rparr>"

text \<open>
  \<^verbatim>\<open>res.setHeader\<close> stores the value, and throws a \<open>TypeError\<close>
  (\<open>ERR_INVALID_CHAR\<close>) for a value with a character other than TAB, 0x20 to 0x7E and
  0x80 to 0xFF.
\<close>

definition header_value_ok :: "jsstring \<Rightarrow> bool" where
  "header_value_ok v =
     list_all (\<lambda>c. c = 0x9 \<or> (0x20 \<le> c \<and> c \<le> 0x7E) \<or> (0x80 \<le> c \<and> c \<le> 0xFF)) v"

definition setHeader :: "response \<Rightarrow> string \<Rightarrow> jsstring \<Rightarrow> thrown + response" where
  \<open>setHeader res name v =
     (if header_value_ok v
      then Inr (res\<lparr>headers := (headers res)(name \<mapsto> v)\<rparr>)
      else Inl (Error_js (lit ''Invalid character in header content ["'' @ lit name @ lit ''"]'')))\<close>

fun setHeaders :: "response \<Rightarrow> (string \<times> jsstring) list \<Rightarrow> thrown + response" where
  "setHeaders res [] = Inr res"
| "setHeaders res ((name, v) # rest) =
     (case setHeader res name v of
        Inl e \<Rightarrow> Inl e
      | Inr r \<Rightarrow> setHeaders r rest)"

definition sendJson :: "response \<Rightarrow> nat \<Rightarrow> json \<Rightarrow> thrown + response" where
  "sendJson res code payload =
     (case setHeader res ''Content-Type'' (lit ''application/json; charset=utf-8'') of
        Inl e \<Rightarrow> Inl e
      | Inr r \<Rightarrow> Inr (r\<lparr>statusCode := code, body := body r @ [Body_Json payload]\<rparr>))"

text \<open>
  \<open>sendFile\<close>: the \<open>open\<close> handler sets the content type and pipes the stream, the
  \<open>error\<close> handler sets status 404 and ends the response with \<open>Not Found\<close>. Once a byte
  has been piped the status line has been sent with 200, and the \<open>error\<close> handler only
  appends its text. \<open>Inl\<close> is what the \<open>open\<close> handler throws: no \<open>try\<close> encloses an
  event handler.
\<close>

definition sendFile ::
  "platform \<Rightarrow> response \<Rightarrow> jsstring \<Rightarrow> jsstring \<Rightarrow> thrown + response" where
  "sendFile P res filePath contentType =
     (case createReadStream P filePath of
        Open_Error \<Rightarrow>
          Inr (res\<lparr>statusCode := 404, body := body res @ [Body_Text (lit ''Not Found'')]\<rparr>)
      | Opened bytes failed \<Rightarrow>
          (case setHeader res ''Content-Type'' contentType of
             Inl e \<Rightarrow> Inl e
           | Inr r \<Rightarrow>
               if \<not> failed then Inr (r\<lparr>body := body r @ [Body_File bytes]\<rparr>)
               else if bytes = []
               then Inr (r\<lparr>statusCode := 404, body := body r @ [Body_Text (lit ''Not Found'')]\<rparr>)
               else Inr (r\<lparr>body := body r @ [Body_File bytes, Body_Text (lit ''Not Found'')]\<rparr>)))"

definition readJson :: "platform \<Rightarrow> request \<Rightarrow> thrown + json" where
  "readJson P req =
     (case data req of
        Inl e \<Rightarrow> Inl e
      | Inr d \<Rightarrow>
          (case JSON_parse P d of
             Inl m \<Rightarrow> Inl (Error_js m)
           | Inr v \<Rightarrow> Inr v))"

definition mimeTypes :: "(jsstring \<times> jsstring) list" where
  "mimeTypes =
     [(lit ''.html'', lit ''text/html''),
      (lit ''.js'', lit ''text/javascript''),
      (lit ''.css'', lit ''text/css''),
      (lit ''.json'', lit ''application/json''),
      (lit ''.png'', lit ''image/png''),
      (lit ''.jpg'', lit ''image/jpeg''),
      (lit ''.jpeg'', lit ''image/jpeg''),
      (lit ''.gif'', lit ''image/gif''),
      (lit ''.svg'', lit ''image/svg+xml''),
      (lit ''.wav'', lit ''audio/wav''),
      (lit ''.mp4'', lit ''video/mp4''),
      (lit ''.woff'', lit ''application/font-woff''),
      (lit ''.ttf'', lit ''application/font-ttf''),
      (lit ''.eot'', lit ''application/vnd.ms-fontobject''),
      (lit ''.otf'', lit ''application/font-otf''),
      (lit ''.wasm'', lit ''application/wasm''),
      (lit ''.ico'', lit ''image/x-icon''),
      (lit ''.map'', lit ''application/json'')]"

section \<open>The chat endpoint\<close>

definition systemPrompt :: jsstring where
  "systemPrompt =
     lit ''You are CHEEStron, a helpful AI assistant for the Chemical Engineering Student Association (CHEESA) at KNUST. ''
     @ [0xA] @ lit ''Your role is to provide information about:''
     @ [0xA] @ lit ''- Chemical Engineering as a career path''
     @ [0xA] @ lit ''- The Chemical Engineering program at KNUST''
     @ [0xA] @ lit ''- CHEESA activities and events''
     @ [0xA] @ lit ''- General chemical engineering concepts''
     @ [0xA] @ lit ''- University life at KNUST''
     @ [0xA]
     @ [0xA] @ lit ''Be friendly, professional, and encouraging. If you don't know an answer, say so and suggest reaching out to CHEESA executives for more specific information.''"

definition system_turn :: turn where
  "system_turn = \<lparr>role = lit ''user'', parts = [systemPrompt]\<rparr>"

definition greeting_turn :: turn where
  "greeting_turn =
     \<lparr>role = lit ''model'',
      parts = [lit ''I'm CHEEStron, your friendly Chemical Engineering assistant. How can I help you today?'']\<rparr>"

text \<open>
  \<^verbatim>\<open>typeof body?.message === 'string' ? body.message : ''\<close> and
  \<^verbatim>\<open>Array.isArray(body?.conversationHistory) ? body.conversationHistory : []\<close>.
\<close>

definition message_of :: "json \<Rightarrow> jsstring" where
  "message_of b = (case field b (lit ''message'') of Some (JStr s) \<Rightarrow> s | _ \<Rightarrow> [])"

definition conversationHistory_of :: "json \<Rightarrow> json list" where
  "conversationHistory_of b =
     (case field b (lit ''conversationHistory'') of Some (JArr xs) \<Rightarrow> xs | _ \<Rightarrow> [])"

text \<open>
  The callback of \<^verbatim>\<open>conversationHistory.map\<close>. \<open>normalize_role\<close> is
  \<^verbatim>\<open>r === 'user' ? 'user' : 'model'\<close> on the value \<open>r\<close> of \<^verbatim>\<open>msg?.role\<close>;
  \<open>history_text\<close> is \<^verbatim>\<open>String(msg?.content ?? '')\<close>.
\<close>

definition normalize_role :: "json option \<Rightarrow> jsstring" where
  "normalize_role r = (if r = Some (JStr (lit ''user'')) then lit ''user'' else lit ''model'')"

definition history_text :: "platform \<Rightarrow> json \<Rightarrow> thrown + jsstring" where
  "history_text P msg =
     (case field msg (lit ''content'') of
        None \<Rightarrow> Inr []
      | Some JNull \<Rightarrow> Inr []
      | Some v \<Rightarrow> String_js (Number_toString P) v)"

definition history_turn :: "platform \<Rightarrow> json \<Rightarrow> thrown + turn" where
  "history_turn P msg =
     (case history_text P msg of
        Inl e \<Rightarrow> Inl e
      | Inr t \<Rightarrow> Inr \<lparr>role = normalize_role (field msg (lit ''role'')), parts = [t]\<rparr>)"

fun map_history :: "platform \<Rightarrow> json list \<Rightarrow> thrown + turn list" where
  "map_history P [] = Inr []"
| "map_history P (msg # rest) =
     (case history_turn P msg of
        Inl e \<Rightarrow> Inl e
      | Inr t \<Rightarrow>
          (case map_history P rest of
             Inl e \<Rightarrow> Inl e
           | Inr ts \<Rightarrow> Inr (t # ts)))"

text \<open>
  The body of the inner \<^verbatim>\<open>try\<close>: the response it sends, or what it throws.
\<close>

definition chat_try ::
  "platform \<Rightarrow> provider \<Rightarrow> request \<Rightarrow> response \<Rightarrow> (thrown + response) \<times> effect list" where
  "chat_try P provider req res =
     (case readJson P req of
        Inl e \<Rightarrow> (Inl e, [])
      | Inr b \<Rightarrow>
          let message = message_of b;
              conversationHistory = conversationHistory_of b
          in if trim message = []
             then (sendJson res 400 (JObj [(lit ''error'', JStr (lit ''Message is required''))]), [])
             else (case map_history P conversationHistory of
                     Inl e \<Rightarrow> (Inl e, [])
                   | Inr turns \<Rightarrow>
                       let history = system_turn # greeting_turn # turns
                       in (case provider history message of
                             Inl e \<Rightarrow> (Inl e, [Provider_Call history message])
                           | Inr reply \<Rightarrow>
                               (sendJson res 200 (JObj [(lit ''response'', JStr reply)]),
                                [Provider_Call history message]))))"

text \<open>
  The inner \<^verbatim>\<open>catch\<close>. \<^verbatim>\<open>JSON.stringify\<close> leaves out a member whose value is
  undefined; reading \<open>message\<close> from \<open>null\<close> or \<open>undefined\<close> throws (the messages are V8's).
\<close>

definition chat_catch :: "response \<Rightarrow> thrown \<Rightarrow> thrown + response" where
  "chat_catch res error =
     (case error of
        Error_js m \<Rightarrow>
          sendJson res 500
            (JObj [(lit ''error'', JStr (lit ''Internal server error'')),
                   (lit ''details'', JStr m)])
      | Non_Error \<Rightarrow>
          sendJson res 500 (JObj [(lit ''error'', JStr (lit ''Internal server error''))])
      | Null_js \<Rightarrow> Inl (Error_js (lit ''Cannot read properties of null (reading 'message')''))
      | Undefined_js \<Rightarrow>
          Inl (Error_js (lit ''Cannot read properties of undefined (reading 'message')'')))"

definition chat ::
  "platform \<Rightarrow> provider \<Rightarrow> request \<Rightarrow> response \<Rightarrow> (thrown + response) \<times> effect list" where
  "chat P provider req res =
     (case chat_try P provider req res of
        (Inr r, fx) \<Rightarrow> (Inr r, fx)
      | (Inl error, fx) \<Rightarrow> (chat_catch res error, fx))"

section \<open>Static files\<close>

text \<open>
  The \<open>GET\<close> branch with the callback of \<open>stat\<close>. The callback and the handlers of the
  stream run after the handler has returned: \<open>Inl\<close> is what escapes them.
\<close>

definition static ::
  "platform \<Rightarrow> response \<Rightarrow> jsstring \<Rightarrow> jsstring \<Rightarrow> (thrown + response) \<times> effect list" where
  "static P res pathname ext =
     (let filePath = join P [cwd P, lit ''public'', pathname]
      in case stat P filePath of
           Stat_Error code \<Rightarrow>
             if code = lit ''ENOENT''
             then (let indexPath = join P [cwd P, lit ''public'', lit ''index.html'']
                   in (sendFile P res indexPath (lit ''text/html''),
                       [Fs_Stat filePath, Fs_Open indexPath]))
             else (Inr (res\<lparr>statusCode := 500,
                             body := body res @ [Body_Text (lit ''Internal Server Error'')]\<rparr>),
                   [Fs_Stat filePath])
         | Stats isDirectory \<Rightarrow>
             if isDirectory
             then (let indexPath = join P [filePath, lit ''index.html'']
                   in (sendFile P res indexPath (lit ''text/html''),
                       [Fs_Stat filePath, Fs_Open indexPath]))
             else (let contentType =
                         (case map_of mimeTypes ext of
                            Some t \<Rightarrow> t
                          | None \<Rightarrow> lit ''application/octet-stream'')
                   in (sendFile P res filePath contentType,
                       [Fs_Stat filePath, Fs_Open filePath])))"

section \<open>The request handler\<close>

text \<open>
  The three headers set before anything else, and before the \<^verbatim>\<open>try\<close>:
  \<open>allowed_origin\<close> is the value given to \<open>Access-Control-Allow-Origin\<close>.
\<close>

definition allowed_origin :: "env \<Rightarrow> request \<Rightarrow> jsstring" where
  "allowed_origin E req =
     (let origin' = (case origin req of
                       None \<Rightarrow> lit ''*''
                     | Some v \<Rightarrow> if v = [] then lit ''*'' else v)
      in case VERCEL_URL E of
           None \<Rightarrow> origin'
         | Some v \<Rightarrow> if v = [] then origin' else lit ''https://'' @ v)"

definition cors :: "env \<Rightarrow> request \<Rightarrow> thrown + response" where
  "cors E req =
     setHeaders fresh
       [(''Access-Control-Allow-Origin'', allowed_origin E req),
        (''Access-Control-Allow-Methods'', lit ''GET, POST, OPTIONS''),
        (''Access-Control-Allow-Headers'', lit ''Content-Type'')]"

text \<open>
  The body of the outer \<^verbatim>\<open>try\<close>: \<open>pathname_of\<close> is
  the \<open>pathname\<close> of \<^verbatim>\<open>new URL(req.url || '/', base)\<close>, the base being \<open>http://\<close>
  followed by \<^verbatim>\<open>req.headers.host || 'localhost'\<close>.
  The test for \<open>OPTIONS\<close> in this block comes after the handler has already answered
  every such request. The block answers, throws to the outer \<^verbatim>\<open>catch\<close>, or
  leaves a callback in which something is thrown that nothing catches.
\<close>

datatype outcome = Answered response | Thrown thrown | Uncaught thrown

definition pathname_of :: "platform \<Rightarrow> request \<Rightarrow> thrown + jsstring" where
  "pathname_of P req =
     URL_pathname P (if url req = [] then lit ''/'' else url req)
       (lit ''http://'' @ (case host req of
                             None \<Rightarrow> lit ''localhost''
                           | Some h \<Rightarrow> if h = [] then lit ''localhost'' else h))"

definition route ::
  "platform \<Rightarrow> provider \<Rightarrow> request \<Rightarrow> response \<Rightarrow> outcome \<times> effect list" where
  "route P provider req res =
     (case pathname_of P req of
        Inl e \<Rightarrow> (Thrown e, [])
      | Inr p \<Rightarrow>
          let pathname = (if p = lit ''/'' then lit ''/index.html'' else p);
              ext = toLowerCase P (extname P pathname)
          in if req_method req = lit ''OPTIONS''
             then (case setHeaders res
                          [(''Access-Control-Allow-Origin'', lit ''*''),
                           (''Access-Control-Allow-Methods'', lit ''GET, POST, OPTIONS''),
                           (''Access-Control-Allow-Headers'', lit ''Content-Type'')] of
                     Inl e \<Rightarrow> (Thrown e, [])
                   | Inr r \<Rightarrow> (Answered (r\<lparr>statusCode := 204\<rparr>), []))
             else if req_method req = lit ''POST'' \<and> pathname = lit ''/api/chat''
             then (case chat P provider req res of
                     (Inl e, fx) \<Rightarrow> (Thrown e, fx)
                   | (Inr r, fx) \<Rightarrow> (Answered r, fx))
             else if req_method req = lit ''GET''
             then (case static P res pathname ext of
                     (Inl e, fx) \<Rightarrow> (Uncaught e, fx)
                   | (Inr r, fx) \<Rightarrow> (Answered r, fx))
             else (Answered (res\<lparr>statusCode := 404,
                                 body := body res @ [Body_Text (lit ''Not Found'')]\<rparr>), []))"

text \<open>
  The handler given to \<^verbatim>\<open>http.createServer\<close>: \<open>Inr\<close> the response sent, \<open>Inl\<close>
  what escapes. What the three \<open>setHeader\<close> calls at the top throw escapes the \<open>async\<close>
  handler as an unhandled rejection, and what a callback throws is an uncaught
  exception; for both the process is made to exit.
\<close>

definition server ::
  "env \<Rightarrow> platform \<Rightarrow> provider \<Rightarrow> request \<Rightarrow> (thrown + response) \<times> effect list" where
  "server E P provider req =
     (case cors E req of
        Inl e \<Rightarrow> (Inl e, [])
      | Inr res \<Rightarrow>
          if req_method req = lit ''OPTIONS''
          then (Inr (res\<lparr>statusCode := 204\<rparr>), [])
          else (case route P provider req res of
                  (Answered r, fx) \<Rightarrow> (Inr r, fx)
                | (Thrown error, fx) \<Rightarrow>
                    (Inr (res\<lparr>statusCode := 500,
                               body := body res @ [Body_Text (lit ''Internal Server Error'')]\<rparr>),
                     fx)
                | (Uncaught e, fx) \<Rightarrow> (Inl e, fx)))"

definition process_exits :: "(thrown + response) \<times> effect list \<Rightarrow> bool" where
  "process_exits out = isl (fst out)"

section \<open>A runtime to run the handler on\<close>

text \<open>
  A small runtime on which the definitions above compute: a table of request bodies
  with their parsed values, a file tree with \<^verbatim>\<open>/srv/app/public/index.html\<close>, a
  directory \<^verbatim>\<open>docs\<close> with its own \<open>index.html\<close> and nothing else, a port 80 that
  cannot be bound, and providers that answer, throw, and answer with the empty string.
  The built-ins are right on the inputs used below and arbitrary elsewhere.
\<close>

definition demo_parse :: "jsstring \<Rightarrow> jsstring + json" where
  \<open>demo_parse d =
     (if d = lit ''{"message":"  "}''
      then Inr (JObj [(lit ''message'', JStr (lit ''  ''))])
      else if d = lit ''{"conversationHistory":[]}''
      then Inr (JObj [(lit ''conversationHistory'', JArr [])])
      else if d = lit ''{"message":42}''
      then Inr (JObj [(lit ''message'', JNum (Num 42))])
      else if d = lit ''{"message":"hi"}''
      then Inr (JObj [(lit ''message'', JStr (lit ''hi''))])
      else if d = lit ''{"message":"hi","conversationHistory":"none"}''
      then Inr (JObj [(lit ''message'', JStr (lit ''hi'')),
                      (lit ''conversationHistory'', JStr (lit ''none''))])
      else if d = lit ''{"message":"hi","conversationHistory":[{"role":"user","content":"a"},{"role":"system","content":"b"}]}''
      then Inr (JObj [(lit ''message'', JStr (lit ''hi'')),
                      (lit ''conversationHistory'',
                       JArr [JObj [(lit ''role'', JStr (lit ''user'')),
                                   (lit ''content'', JStr (lit ''a''))],
                             JObj [(lit ''role'', JStr (lit ''system'')),
                                   (lit ''content'', JStr (lit ''b''))]])])
      else Inl (lit ''Unexpected end of JSON input''))\<close>

definition demo_join :: "jsstring list \<Rightarrow> jsstring" where
  "demo_join xs =
     concat (map (\<lambda>s. case s of [] \<Rightarrow> [] | c # cs \<Rightarrow> if c = 0x2F then s else 0x2F # s) xs)"

definition demo_stat :: "jsstring \<Rightarrow> stat_result" where
  "demo_stat path =
     (if path = lit ''/srv/app/public/index.html'' then Stats False
      else if path = lit ''/srv/app/public/docs'' then Stats True
      else if path = lit ''/srv/app/public/docs/index.html'' then Stats False
      else if path = lit ''/srv/app/public/index.html/x'' then Stat_Error (lit ''ENOTDIR'')
      else Stat_Error (lit ''ENOENT''))"

definition demo_read :: "jsstring \<Rightarrow> stream" where
  "demo_read path =
     (if path = lit ''/srv/app/public/index.html'' then Opened [0x3C, 0x21] False
      else if path = lit ''/srv/app/public/docs/index.html'' then Opened [0x3C, 0x68] False
      else Open_Error)"

definition demo_pathname :: "jsstring \<Rightarrow> jsstring" where
  "demo_pathname input =
     (if input = lit ''/../../etc/passwd'' then lit ''/etc/passwd''
      else takeWhile (\<lambda>c. c \<noteq> 0x3F \<and> c \<noteq> 0x23) input)"

definition demo_extname :: "jsstring \<Rightarrow> jsstring" where
  "demo_extname p =
     (let base = rev (takeWhile (\<lambda>c. c \<noteq> 0x2F) (rev p))
      in if 0x2E \<in> set (drop 1 base)
         then 0x2E # rev (takeWhile (\<lambda>c. c \<noteq> 0x2E) (rev base))
         else [])"

definition node0 :: platform where
  "node0 =
     \<lparr>JSON_parse = demo_parse,
      Number_js = (\<lambda>s. if s = lit ''8080'' then Num 8080 else if s = lit ''80'' then Num 80 else NaN),
      Number_toString = (\<lambda>n. if n = Num 42 then lit ''42'' else lit ''NaN''),
      URL_pathname = (\<lambda>input base. Inr (demo_pathname input)),
      extname = demo_extname,
      toLowerCase = (\<lambda>s. s),
      join = demo_join,
      cwd = lit ''/srv/app'',
      stat = demo_stat,
      createReadStream = demo_read,
      listen = (\<lambda>p h. if p = Num 80 then Some (lit ''EACCES'') else None)\<rparr>"

text \<open>
  The same runtime with an empty \<^verbatim>\<open>public\<close> directory, and with one in which
  \<open>index.html\<close> is a directory: its stream opens and fails at the first read.
\<close>

definition node_bare :: platform where
  "node_bare =
     node0\<lparr>stat := (\<lambda>path. Stat_Error (lit ''ENOENT'')), createReadStream := (\<lambda>path. Open_Error)\<rparr>"


definition env_dev :: env where
  "env_dev = \<lparr>PORT = None, GOOGLE_AI_KEY = Some (lit ''k-123''), VERCEL_URL = None\<rparr>"

definition env_prod :: env where
  "env_prod =
     \<lparr>PORT = Some (lit ''8080''), GOOGLE_AI_KEY = Some (lit ''k-123''),
      VERCEL_URL = Some (lit ''cheesa.vercel.app'')\<rparr>"




definition env_bad_url :: env where
  "env_bad_url =
     \<lparr>PORT = None, GOOGLE_AI_KEY = Some (lit ''k-123''),
      VERCEL_URL = Some (lit ''cheesa.vercel.app'' @ [0xA])\<rparr>"

definition answering :: provider where
  "answering history message = Inr (lit ''Welcome to CHEESA'')"

definition failing :: provider where
  "failing history message = Inl (Error_js (lit ''fetch failed''))"

definition silent :: provider where
  "silent history message = Inr []"

definition post_chat :: "jsstring \<Rightarrow> request" where
  "post_chat d =
     \<lparr>req_method = lit ''POST'', url = lit ''/api/chat'', host = Some (lit ''localhost:3001''),
      origin = Some (lit ''http://localhost:5173''), data = Inr d\<rparr>"

definition request_to :: "string \<Rightarrow> string \<Rightarrow> request" where
  "request_to m target =
     \<lparr>req_method = lit m, url = lit target, host = Some (lit ''localhost:3001''),
      origin = None, data = Inr []\<rparr>"


section \<open>Strings\<close>

lemma of_char_word_inj: "(of_nat (of_char c) :: 16 word) = of_nat (of_char d) \<longleftrightarrow> c = d"
proof -
  have c: "take_bit 16 (of_char c :: nat) = of_char c"
    by (rule take_bit_nat_eq_self) (rule less_trans [OF nat_of_char_less_256], simp)
  have d: "take_bit 16 (of_char d :: nat) = of_char d"
    by (rule take_bit_nat_eq_self) (rule less_trans [OF nat_of_char_less_256], simp)
  show ?thesis
    by (simp add: word_of_nat_eq_iff c d)
qed

lemma lit_eq_iff [simp]: "lit a = lit b \<longleftrightarrow> a = b"
proof -
  have "inj (\<lambda>c. (of_nat (of_char c) :: 16 word))"
    by (rule injI) (simp add: of_char_word_inj)
  then show ?thesis
    unfolding lit_def by (simp add: inj_map_eq_map)
qed

lemma lit_Nil [simp]: "lit s = [] \<longleftrightarrow> s = []" "[] = lit s \<longleftrightarrow> s = []"
  by (auto simp: lit_def)

lemma lit_append: "lit a @ lit b = lit (a @ b)"
  by (simp add: lit_def)

lemma trim_Nil_iff: "trim s = [] \<longleftrightarrow> (\<forall>c\<in>set s. is_space c)"
proof
  assume "trim s = []"
  then have a: "\<forall>c\<in>set (dropWhile is_space s). is_space c"
    by (simp add: trim_def)
  have "dropWhile is_space s = []"
  proof (rule ccontr)
    assume n: "dropWhile is_space s \<noteq> []"
    then have "\<not> is_space (hd (dropWhile is_space s))" by (rule hd_dropWhile)
    moreover from n have "hd (dropWhile is_space s) \<in> set (dropWhile is_space s)" by simp
    ultimately show False using a by blast
  qed
  then show "\<forall>c\<in>set s. is_space c" by simp
next
  assume a: "\<forall>c\<in>set s. is_space c"
  have 1: "dropWhile is_space s = []" using a by simp
  show "trim s = []" unfolding trim_def 1 by simp
qed

section \<open>Headers\<close>

lemma header_literals_ok:
  "header_value_ok (lit ''GET, POST, OPTIONS'')"
  "header_value_ok (lit ''Content-Type'')"
  "header_value_ok (lit ''application/json; charset=utf-8'')"
  "header_value_ok (lit ''text/html'')"
  "header_value_ok (lit ''application/octet-stream'')"
  "header_value_ok (lit ''*'')"
  by (simp_all add: header_value_ok_def lit_def)

lemma mimeTypes_ok: "map_of mimeTypes ext = Some t \<Longrightarrow> header_value_ok t"
proof -
  assume "map_of mimeTypes ext = Some t"
  then have "(ext, t) \<in> set mimeTypes" by (rule map_of_SomeD)
  moreover have "\<forall>(k, v)\<in>set mimeTypes. header_value_ok v"
    by (simp add: mimeTypes_def header_value_ok_def lit_def)
  ultimately show ?thesis by blast
qed

lemma setHeader_ok:
  "header_value_ok v \<Longrightarrow> setHeader res name v = Inr (res\<lparr>headers := (headers res)(name \<mapsto> v)\<rparr>)"
  by (simp add: setHeader_def)

lemma sendJson_eq:
  "sendJson res code payload =
   Inr (res\<lparr>headers := (headers res)(''Content-Type'' \<mapsto> lit ''application/json; charset=utf-8''),
            statusCode := code, body := body res @ [Body_Json payload]\<rparr>)"
  by (simp add: sendJson_def setHeader_ok header_literals_ok)

lemma cors_ok:
  assumes "header_value_ok (allowed_origin E req)"
  shows "cors E req =
         Inr \<lparr>statusCode = 200,
              headers = [''Access-Control-Allow-Origin'' \<mapsto> allowed_origin E req,
                         ''Access-Control-Allow-Methods'' \<mapsto> lit ''GET, POST, OPTIONS'',
                         ''Access-Control-Allow-Headers'' \<mapsto> lit ''Content-Type''],
              body = []\<rparr>"
  using assms by (simp add: cors_def setHeader_ok header_literals_ok fresh_def)

lemma cors_throws:
  assumes "\<not> header_value_ok (allowed_origin E req)"
  shows \<open>cors E req =
         Inl (Error_js (lit ''Invalid character in header content ["Access-Control-Allow-Origin"]''))\<close>
  using assms by (simp add: cors_def setHeader_def lit_append)

text \<open>
  With a value for \<open>Access-Control-Allow-Origin\<close> that \<open>setHeader\<close> refuses, the handler
  sends nothing, whatever the request is, and the process exits.
\<close>

lemma refused_origin_exits:
  assumes "\<not> header_value_ok (allowed_origin E req)"
  shows \<open>server E P provider req =
         (Inl (Error_js (lit ''Invalid character in header content ["Access-Control-Allow-Origin"]'')), [])\<close>
    and "process_exits (server E P provider req)"
  using assms by (simp_all add: server_def cors_throws process_exits_def)

lemma refused_origin_example:
  "allowed_origin env_bad_url (post_chat d) = lit ''https://cheesa.vercel.app'' @ [0xA]"
  "\<not> header_value_ok (allowed_origin env_bad_url (post_chat d))"
  "process_exits (server env_bad_url node0 answering (post_chat d))"
proof -
  show 1: "allowed_origin env_bad_url (post_chat d) = lit ''https://cheesa.vercel.app'' @ [0xA]"
    by (simp add: allowed_origin_def env_bad_url_def lit_def)
  show 2: "\<not> header_value_ok (allowed_origin env_bad_url (post_chat d))"
    unfolding 1 by (simp add: header_value_ok_def lit_def)
  show "process_exits (server env_bad_url node0 answering (post_chat d))"
    using 2 by (rule refused_origin_exits)
qed

lemma allowed_origin_cases:
  "VERCEL_URL E = Some u \<Longrightarrow> u \<noteq> [] \<Longrightarrow> allowed_origin E req = lit ''https://'' @ u"
  "VERCEL_URL E = None \<or> VERCEL_URL E = Some [] \<Longrightarrow> origin req = Some v \<Longrightarrow> v \<noteq> [] \<Longrightarrow>
   allowed_origin E req = v"
  "VERCEL_URL E = None \<or> VERCEL_URL E = Some [] \<Longrightarrow> origin req = None \<or> origin req = Some [] \<Longrightarrow>
   allowed_origin E req = lit ''*''"
  by (auto simp: allowed_origin_def)

section \<open>The handler, branch by branch\<close>

lemma server_options:
  assumes "cors E req = Inr res" and "req_method req = lit ''OPTIONS''"
  shows "server E P provider req = (Inr (res\<lparr>statusCode := 204\<rparr>), [])"
  using assms by (simp add: server_def)

lemma server_chat:
  assumes "cors E req = Inr res"
    and "req_method req = lit ''POST''" and "pathname_of P req = Inr (lit ''/api/chat'')"
  shows "server E P provider req =
         (case chat P provider req res of
            (Inr r, fx) \<Rightarrow> (Inr r, fx)
          | (Inl error, fx) \<Rightarrow>
              (Inr (res\<lparr>statusCode := 500,
                        body := body res @ [Body_Text (lit ''Internal Server Error'')]\<rparr>), fx))"
  using assms by (simp add: server_def route_def Let_def split: prod.splits sum.splits)


lemma chat_blank:
  assumes "readJson P req = Inr b" and "trim (message_of b) = []"
  shows "chat P provider req res =
         (sendJson res 400 (JObj [(lit ''error'', JStr (lit ''Message is required''))]), [])"
  using assms by (simp add: chat_def chat_try_def Let_def sendJson_eq)

lemma chat_unreadable:
  assumes "readJson P req = Inl (Error_js m)"
  shows "chat P provider req res =
         (sendJson res 500
            (JObj [(lit ''error'', JStr (lit ''Internal server error'')),
                   (lit ''details'', JStr m)]), [])"
  using assms by (simp add: chat_def chat_try_def chat_catch_def)

lemma chat_relay:
  assumes "readJson P req = Inr b" and "trim (message_of b) \<noteq> []"
    and "map_history P (conversationHistory_of b) = Inr turns"
  shows "chat P provider req res =
         (case provider (system_turn # greeting_turn # turns) (message_of b) of
            Inl e \<Rightarrow>
              (chat_catch res e, [Provider_Call (system_turn # greeting_turn # turns) (message_of b)])
          | Inr reply \<Rightarrow>
              (sendJson res 200 (JObj [(lit ''response'', JStr reply)]),
               [Provider_Call (system_turn # greeting_turn # turns) (message_of b)]))"
  using assms by (simp add: chat_def chat_try_def Let_def sendJson_eq split: sum.splits)

lemma server_blank:
  assumes "header_value_ok (allowed_origin E req)"
    and "req_method req = lit ''POST''" and "pathname_of P req = Inr (lit ''/api/chat'')"
    and "readJson P req = Inr b" and "trim (message_of b) = []"
  shows "server E P provider req =
         (Inr \<lparr>statusCode = 400,
           headers = [''Access-Control-Allow-Origin'' \<mapsto> allowed_origin E req,
                      ''Access-Control-Allow-Methods'' \<mapsto> lit ''GET, POST, OPTIONS'',
                      ''Access-Control-Allow-Headers'' \<mapsto> lit ''Content-Type'',
                      ''Content-Type'' \<mapsto> lit ''application/json; charset=utf-8''],
           body = [Body_Json (JObj [(lit ''error'', JStr (lit ''Message is required''))])]\<rparr>, [])"
  by (simp add: server_chat [OF cors_ok [OF assms(1)] assms(2,3)] chat_blank [OF assms(4,5)]
        sendJson_eq)

lemma fixed_turns:
  "system_turn =
     \<lparr>role = lit ''user'',
                parts = [lit ''You are CHEEStron, a helpful AI assistant for the Chemical Engineering Student Association (CHEESA) at KNUST. ''
                         @ [0xA] @ lit ''Your role is to provide information about:''
                         @ [0xA] @ lit ''- Chemical Engineering as a career path''
                         @ [0xA] @ lit ''- The Chemical Engineering program at KNUST''
                         @ [0xA] @ lit ''- CHEESA activities and events''
                         @ [0xA] @ lit ''- General chemical engineering concepts''
                         @ [0xA] @ lit ''- University life at KNUST''
                         @ [0xA]
                         @ [0xA] @ lit ''Be friendly, professional, and encouraging. If you don't know an answer, say so and suggest reaching out to CHEESA executives for more specific information.'']\<rparr>"
  "greeting_turn =
     \<lparr>role = lit ''model'',
                parts = [lit ''I'm CHEEStron, your friendly Chemical Engineering assistant. How can I help you today?'']\<rparr>"
  by (simp_all add: system_turn_def greeting_turn_def systemPrompt_def)

text \<open>
  Claim C1. A \<open>POST /api/chat\<close> request whose parsed body has no \<open>message\<close> member, or
  a \<open>message\<close> string of white space only (the empty string included), is answered with
  status 400 and the JSON body \<^verbatim>\<open>{error: "Message is required"}\<close>, and the request makes no
  call to the provider: the list of effects is empty. (The value for
  \<open>Access-Control-Allow-Origin\<close> is one that \<open>setHeader\<close> accepts; with any other the
  handler answers no request, see \<open>refused_origin_exits\<close>.)
\<close>

theorem missing_or_blank_message_400:
  assumes "req_method req = lit ''POST''" and "pathname_of P req = Inr (lit ''/api/chat'')"
    and "readJson P req = Inr b"
    and "field b (lit ''message'') = None
         \<or> (\<exists>s. field b (lit ''message'') = Some (JStr s) \<and> (\<forall>c\<in>set s. is_space c))"
    and "header_value_ok (allowed_origin E req)"
  shows "server E P provider req =
         (Inr \<lparr>statusCode = 400,
           headers = [''Access-Control-Allow-Origin'' \<mapsto> allowed_origin E req,
                      ''Access-Control-Allow-Methods'' \<mapsto> lit ''GET, POST, OPTIONS'',
                      ''Access-Control-Allow-Headers'' \<mapsto> lit ''Content-Type'',
                      ''Content-Type'' \<mapsto> lit ''application/json; charset=utf-8''],
           body = [Body_Json (JObj [(lit ''error'', JStr (lit ''Message is required''))])]\<rparr>, [])"
proof -
  have "trim (message_of b) = []"
    using assms(4) by (auto simp: message_of_def trim_Nil_iff)
  with assms(5,1-3) show ?thesis by (rule server_blank)
qed

lemma node0_pathname_chat: "pathname_of node0 (post_chat d) = Inr (lit ''/api/chat'')"
  by (simp add: pathname_of_def node0_def post_chat_def demo_pathname_def) (simp add: lit_def)

lemma node0_readJson:
  "readJson node0 (post_chat d) =
   (case demo_parse d of Inl m \<Rightarrow> Inl (Error_js m) | Inr v \<Rightarrow> Inr v)"
  by (simp add: readJson_def node0_def post_chat_def)

lemma post_chat_method: "req_method (post_chat d) = lit ''POST''"
  by (simp add: post_chat_def)

lemma dev_origin:
  "allowed_origin env_dev (post_chat d) = lit ''http://localhost:5173''"
  "header_value_ok (allowed_origin env_dev (post_chat d))"
  "allowed_origin env_dev (request_to m target) = lit ''*''"
  "header_value_ok (allowed_origin env_dev (request_to m target))"
  by (simp_all add: allowed_origin_def env_dev_def post_chat_def request_to_def)
     (simp_all add: header_value_ok_def lit_def)

theorem missing_or_blank_message_400_witness:
  \<open>server env_dev node0 answering (post_chat (lit ''{"message":"  "}'')) =
     (Inr \<lparr>statusCode = 400,
           headers = [''Access-Control-Allow-Origin'' \<mapsto> lit ''http://localhost:5173'',
                      ''Access-Control-Allow-Methods'' \<mapsto> lit ''GET, POST, OPTIONS'',
                      ''Access-Control-Allow-Headers'' \<mapsto> lit ''Content-Type'',
                      ''Content-Type'' \<mapsto> lit ''application/json; charset=utf-8''],
           body = [Body_Json (JObj [(lit ''error'', JStr (lit ''Message is required''))])]\<rparr>, [])
   \<and> server env_dev node0 answering (post_chat (lit ''{"conversationHistory":[]}'')) =
     (Inr \<lparr>statusCode = 400,
           headers = [''Access-Control-Allow-Origin'' \<mapsto> lit ''http://localhost:5173'',
                      ''Access-Control-Allow-Methods'' \<mapsto> lit ''GET, POST, OPTIONS'',
                      ''Access-Control-Allow-Headers'' \<mapsto> lit ''Content-Type'',
                      ''Content-Type'' \<mapsto> lit ''application/json; charset=utf-8''],
           body = [Body_Json (JObj [(lit ''error'', JStr (lit ''Message is required''))])]\<rparr>, [])\<close>
proof -
  have 1: \<open>readJson node0 (post_chat (lit ''{"message":"  "}'')) =
           Inr (JObj [(lit ''message'', JStr (lit ''  ''))])\<close>
    by (simp add: node0_readJson demo_parse_def)
  have 2: \<open>readJson node0 (post_chat (lit ''{"conversationHistory":[]}'')) =
           Inr (JObj [(lit ''conversationHistory'', JArr [])])\<close>
    by (simp add: node0_readJson demo_parse_def)
  have 3: "field (JObj [(lit ''message'', JStr (lit ''  ''))]) (lit ''message'') = None
           \<or> (\<exists>s. field (JObj [(lit ''message'', JStr (lit ''  ''))]) (lit ''message'') = Some (JStr s)
                  \<and> (\<forall>c\<in>set s. is_space c))"
    by (simp add: lit_def is_space_def)
  have 4: "field (JObj [(lit ''conversationHistory'', JArr [])]) (lit ''message'') = None
           \<or> (\<exists>s. field (JObj [(lit ''conversationHistory'', JArr [])]) (lit ''message'') = Some (JStr s)
                  \<and> (\<forall>c\<in>set s. is_space c))"
    by simp
  show ?thesis
    using missing_or_blank_message_400 [OF post_chat_method node0_pathname_chat 1 3 dev_origin(2),
        of answering]
      missing_or_blank_message_400 [OF post_chat_method node0_pathname_chat 2 4 dev_origin(2),
        of answering]
    by (simp add: dev_origin(1))
qed

text \<open>
  Claim C9. A \<open>POST /api/chat\<close> request whose \<open>message\<close> member is present but is not a
  string (a number, a boolean, \<open>null\<close>, an array, an object) is read as the empty message
  and answered with status 400 and \<^verbatim>\<open>{error: "Message is required"}\<close>, with no call to
  the provider. (The value for \<open>Access-Control-Allow-Origin\<close> is one that \<open>setHeader\<close>
  accepts.)
\<close>

theorem non_string_message_400:
  assumes "req_method req = lit ''POST''" and "pathname_of P req = Inr (lit ''/api/chat'')"
    and "readJson P req = Inr b"
    and "field b (lit ''message'') = Some v" and "\<forall>s. v \<noteq> JStr s"
    and "header_value_ok (allowed_origin E req)"
  shows "message_of b = []
         \<and> server E P provider req =
           (Inr \<lparr>statusCode = 400,
           headers = [''Access-Control-Allow-Origin'' \<mapsto> allowed_origin E req,
                      ''Access-Control-Allow-Methods'' \<mapsto> lit ''GET, POST, OPTIONS'',
                      ''Access-Control-Allow-Headers'' \<mapsto> lit ''Content-Type'',
                      ''Content-Type'' \<mapsto> lit ''application/json; charset=utf-8''],
           body = [Body_Json (JObj [(lit ''error'', JStr (lit ''Message is required''))])]\<rparr>, [])"
proof -
  have e: "message_of b = []"
    using assms(4,5) by (cases v) (simp_all add: message_of_def)
  then have "trim (message_of b) = []" by (simp add: trim_def)
  with assms(6,1-3) e show ?thesis by (simp add: server_blank)
qed

theorem non_string_message_400_witness:
  \<open>message_of (JObj [(lit ''message'', JNum (Num 42))]) = []
   \<and> server env_dev node0 answering (post_chat (lit ''{"message":42}'')) =
     (Inr \<lparr>statusCode = 400,
           headers = [''Access-Control-Allow-Origin'' \<mapsto> lit ''http://localhost:5173'',
                      ''Access-Control-Allow-Methods'' \<mapsto> lit ''GET, POST, OPTIONS'',
                      ''Access-Control-Allow-Headers'' \<mapsto> lit ''Content-Type'',
                      ''Content-Type'' \<mapsto> lit ''application/json; charset=utf-8''],
           body = [Body_Json (JObj [(lit ''error'', JStr (lit ''Message is required''))])]\<rparr>, [])\<close>
proof -
  have 1: \<open>readJson node0 (post_chat (lit ''{"message":42}'')) =
           Inr (JObj [(lit ''message'', JNum (Num 42))])\<close>
    by (simp add: node0_readJson demo_parse_def)
  have 2: "field (JObj [(lit ''message'', JNum (Num 42))]) (lit ''message'') = Some (JNum (Num 42))"
    by simp
  have 3: "\<forall>s. JNum (Num 42) \<noteq> JStr s" by simp
  show ?thesis
    using non_string_message_400 [OF post_chat_method node0_pathname_chat 1 2 3 dev_origin(2),
        of answering]
    by (simp add: dev_origin(1))
qed
section \<open>History\<close>

lemma history_turn_role:
  "history_turn P msg = Inr t \<Longrightarrow> role t = normalize_role (field msg (lit ''role''))"
  by (auto simp: history_turn_def split: sum.splits)



text \<open>
  Claim C4. The role of a history turn becomes \<open>user\<close> exactly when the supplied role is
  the string \<open>user\<close>, and \<open>model\<close> otherwise (so for \<open>system\<close>); normalizing a
  normalized role changes nothing; and the turn built from a history entry carries the
  normalized role.
\<close>
theorem role_normalization:
  "(normalize_role r = lit ''user'' \<longleftrightarrow> r = Some (JStr (lit ''user'')))
   \<and> (r \<noteq> Some (JStr (lit ''user'')) \<longrightarrow> normalize_role r = lit ''model'')
   \<and> normalize_role (Some (JStr (lit ''system''))) = lit ''model''
   \<and> normalize_role (Some (JStr (normalize_role r))) = normalize_role r
   \<and> (history_turn P msg = Inr t \<longrightarrow> role t = normalize_role (field msg (lit ''role'')))"
  by (simp add: normalize_role_def history_turn_role)

theorem role_normalization_witness:
  "normalize_role (Some (JStr (lit ''assistant''))) = lit ''model''
   \<and> normalize_role (Some (JStr (lit ''user''))) = lit ''user''
   \<and> normalize_role (Some (JStr (normalize_role (Some (JStr (lit ''assistant'')))))) = lit ''model''
   \<and> history_turn node0 (JObj [(lit ''role'', JStr (lit ''system'')), (lit ''content'', JStr (lit ''b''))])
       = Inr \<lparr>role = lit ''model'', parts = [lit ''b'']\<rparr>
   \<and> role \<lparr>role = lit ''model'', parts = [lit ''b'']\<rparr> = lit ''model''"
proof -
  have 1: "history_turn node0 (JObj [(lit ''role'', JStr (lit ''system'')), (lit ''content'', JStr (lit ''b''))])
           = Inr \<lparr>role = lit ''model'', parts = [lit ''b'']\<rparr>"
    by (simp add: history_turn_def history_text_def normalize_role_def)
  show ?thesis
    using role_normalization [of "Some (JStr (lit ''assistant''))" node0
        "JObj [(lit ''role'', JStr (lit ''system'')), (lit ''content'', JStr (lit ''b''))]"
        "\<lparr>role = lit ''model'', parts = [lit ''b'']\<rparr>"]
      role_normalization [of "Some (JStr (lit ''user''))" node0 JNull "\<lparr>role = [], parts = []\<rparr>"]
      1
    by (simp add: normalize_role_def)
qed



text \<open>
  Claim C10. When \<open>conversationHistory\<close> is present but is not an array, the history is
  read as empty: the provider is called with the system turn and the greeting turn only,
  followed by the message, and a text that the provider returns is relayed with status 200.
  (The value for \<open>Access-Control-Allow-Origin\<close> is one that \<open>setHeader\<close> accepts.)
\<close>

theorem non_array_history_is_empty:
  assumes "req_method req = lit ''POST''" and "pathname_of P req = Inr (lit ''/api/chat'')"
    and "readJson P req = Inr b" and "trim (message_of b) \<noteq> []"
    and "field b (lit ''conversationHistory'') = Some v" and "\<forall>xs. v \<noteq> JArr xs"
    and "header_value_ok (allowed_origin E req)"
  shows "conversationHistory_of b = []
         \<and> snd (server E P provider req) =
             [Provider_Call
                [\<lparr>role = lit ''user'',
                 parts = [lit ''You are CHEEStron, a helpful AI assistant for the Chemical Engineering Student Association (CHEESA) at KNUST. ''
                          @ [0xA] @ lit ''Your role is to provide information about:''
                          @ [0xA] @ lit ''- Chemical Engineering as a career path''
                          @ [0xA] @ lit ''- The Chemical Engineering program at KNUST''
                          @ [0xA] @ lit ''- CHEESA activities and events''
                          @ [0xA] @ lit ''- General chemical engineering concepts''
                          @ [0xA] @ lit ''- University life at KNUST''
                          @ [0xA]
                          @ [0xA] @ lit ''Be friendly, professional, and encouraging. If you don't know an answer, say so and suggest reaching out to CHEESA executives for more specific information.'']\<rparr>,
                 \<lparr>role = lit ''model'',
                 parts = [lit ''I'm CHEEStron, your friendly Chemical Engineering assistant. How can I help you today?'']\<rparr>]
                (message_of b)]
         \<and> (provider
                [\<lparr>role = lit ''user'',
                 parts = [lit ''You are CHEEStron, a helpful AI assistant for the Chemical Engineering Student Association (CHEESA) at KNUST. ''
                          @ [0xA] @ lit ''Your role is to provide information about:''
                          @ [0xA] @ lit ''- Chemical Engineering as a career path''
                          @ [0xA] @ lit ''- The Chemical Engineering program at KNUST''
                          @ [0xA] @ lit ''- CHEESA activities and events''
                          @ [0xA] @ lit ''- General chemical engineering concepts''
                          @ [0xA] @ lit ''- University life at KNUST''
                          @ [0xA]
                          @ [0xA] @ lit ''Be friendly, professional, and encouraging. If you don't know an answer, say so and suggest reaching out to CHEESA executives for more specific information.'']\<rparr>,
                 \<lparr>role = lit ''model'',
                 parts = [lit ''I'm CHEEStron, your friendly Chemical Engineering assistant. How can I help you today?'']\<rparr>]
                (message_of b) = Inr reply \<longrightarrow>
              fst (server E P provider req) =
                Inr \<lparr>statusCode = 200,
           headers = [''Access-Control-Allow-Origin'' \<mapsto> allowed_origin E req,
                      ''Access-Control-Allow-Methods'' \<mapsto> lit ''GET, POST, OPTIONS'',
                      ''Access-Control-Allow-Headers'' \<mapsto> lit ''Content-Type'',
                      ''Content-Type'' \<mapsto> lit ''application/json; charset=utf-8''],
           body = [Body_Json (JObj [(lit ''response'', JStr reply)])]\<rparr>)"
proof -
  have e: "conversationHistory_of b = []"
    using assms(5,6) by (cases v) (simp_all add: conversationHistory_of_def)
  then have h: "map_history P (conversationHistory_of b) = Inr []" by simp
  show ?thesis
    unfolding fixed_turns [symmetric]
    by (simp add: e server_chat [OF cors_ok [OF assms(7)] assms(1,2)]
          chat_relay [OF assms(3,4) h] sendJson_eq split: sum.splits prod.splits)
qed

theorem non_array_history_is_empty_witness:
  \<open>snd (server env_dev node0 answering (post_chat (lit ''{"message":"hi","conversationHistory":"none"}''))) =
     [Provider_Call
        [\<lparr>role = lit ''user'',
                 parts = [lit ''You are CHEEStron, a helpful AI assistant for the Chemical Engineering Student Association (CHEESA) at KNUST. ''
                          @ [0xA] @ lit ''Your role is to provide information about:''
                          @ [0xA] @ lit ''- Chemical Engineering as a career path''
                          @ [0xA] @ lit ''- The Chemical Engineering program at KNUST''
                          @ [0xA] @ lit ''- CHEESA activities and events''
                          @ [0xA] @ lit ''- General chemical engineering concepts''
                          @ [0xA] @ lit ''- University life at KNUST''
                          @ [0xA]
                          @ [0xA] @ lit ''Be friendly, professional, and encouraging. If you don't know an answer, say so and suggest reaching out to CHEESA executives for more specific information.'']\<rparr>,
         \<lparr>role = lit ''model'',
                 parts = [lit ''I'm CHEEStron, your friendly Chemical Engineering assistant. How can I help you today?'']\<rparr>]
        (lit ''hi'')]
   \<and> fst (server env_dev node0 answering (post_chat (lit ''{"message":"hi","conversationHistory":"none"}''))) =
     Inr \<lparr>statusCode = 200,
           headers = [''Access-Control-Allow-Origin'' \<mapsto> lit ''http://localhost:5173'',
                      ''Access-Control-Allow-Methods'' \<mapsto> lit ''GET, POST, OPTIONS'',
                      ''Access-Control-Allow-Headers'' \<mapsto> lit ''Content-Type'',
                      ''Content-Type'' \<mapsto> lit ''application/json; charset=utf-8''],
           body = [Body_Json (JObj [(lit ''response'', JStr (lit ''Welcome to CHEESA''))])]\<rparr>\<close>
proof -
  let ?b = "JObj [(lit ''message'', JStr (lit ''hi'')),
                  (lit ''conversationHistory'', JStr (lit ''none''))]"
  have 1: \<open>readJson node0 (post_chat (lit ''{"message":"hi","conversationHistory":"none"}'')) = Inr ?b\<close>
    by (simp add: node0_readJson demo_parse_def)
  have 2: "message_of ?b = lit ''hi''" by (simp add: message_of_def)
  have 3: "trim (message_of ?b) \<noteq> []"
    unfolding 2 by (simp add: trim_Nil_iff) (simp add: lit_def is_space_def)
  have 4: "field ?b (lit ''conversationHistory'') = Some (JStr (lit ''none''))" by simp
  have 5: "\<forall>xs. JStr (lit ''none'') \<noteq> JArr xs" by simp
  show ?thesis
    using non_array_history_is_empty [OF post_chat_method node0_pathname_chat 1 3 4 5 dev_origin(2),
        where provider = answering and reply = "lit ''Welcome to CHEESA''"]
    unfolding 2 by (simp add: answering_def dev_origin(1))
qed

section \<open>Every request is answered\<close>

lemma chat_headers:
  assumes "chat P provider req res = (Inr r, fx)" and "h \<noteq> ''Content-Type''"
  shows "headers r h = headers res h"
  using assms
  by (auto simp: chat_def chat_try_def chat_catch_def sendJson_eq Let_def
        split: sum.splits if_splits thrown.splits)

lemma sendFile_answers:
  assumes "header_value_ok contentType"
  shows "\<exists>r. sendFile P res filePath contentType = Inr r
             \<and> (\<forall>h. h \<noteq> ''Content-Type'' \<longrightarrow> headers r h = headers res h)"
  using assms by (auto simp: sendFile_def setHeader_ok split: stream.splits)

lemma static_answers:
  "\<exists>r fx. static P res pathname ext = (Inr r, fx)
           \<and> (\<forall>h. h \<noteq> ''Content-Type'' \<longrightarrow> headers r h = headers res h)"
proof -
  have m: "header_value_ok
      (case map_of mimeTypes ext of Some t \<Rightarrow> t | None \<Rightarrow> lit ''application/octet-stream'')"
    by (auto simp: header_literals_ok mimeTypes_ok split: option.splits)
  note f = sendFile_answers [OF header_literals_ok(4), of P res]
    sendFile_answers [OF m, of P res]
  show ?thesis
    unfolding static_def Let_def
    by (cases "stat P (join P [cwd P, lit ''public'', pathname])") (use f in auto)
qed

lemma route_answers:
  assumes "req_method req \<noteq> lit ''OPTIONS''"
  shows "(\<exists>r fx. route P provider req res = (Answered r, fx)
                 \<and> (\<forall>h. h \<noteq> ''Content-Type'' \<longrightarrow> headers r h = headers res h))
         \<or> (\<exists>e fx. route P provider req res = (Thrown e, fx))"
proof (cases "pathname_of P req")
  case (Inl e)
  then show ?thesis by (simp add: route_def)
next
  case (Inr p)
  define pathname where "pathname = (if p = lit ''/'' then lit ''/index.html'' else p)"
  have rt: "route P provider req res =
      (if req_method req = lit ''POST'' \<and> pathname = lit ''/api/chat''
       then (case chat P provider req res of
               (Inl e, fx) \<Rightarrow> (Thrown e, fx)
             | (Inr r, fx) \<Rightarrow> (Answered r, fx))
       else if req_method req = lit ''GET''
       then (case static P res pathname (toLowerCase P (extname P pathname)) of
               (Inl e, fx) \<Rightarrow> (Uncaught e, fx)
             | (Inr r, fx) \<Rightarrow> (Answered r, fx))
       else (Answered (res\<lparr>statusCode := 404,
                           body := body res @ [Body_Text (lit ''Not Found'')]\<rparr>), []))"
    using Inr assms by (simp add: route_def Let_def pathname_def)
  consider (chat) "req_method req = lit ''POST'' \<and> pathname = lit ''/api/chat''"
    | (static) "\<not> (req_method req = lit ''POST'' \<and> pathname = lit ''/api/chat'')"
        "req_method req = lit ''GET''"
    | (none) "\<not> (req_method req = lit ''POST'' \<and> pathname = lit ''/api/chat'')"
        "req_method req \<noteq> lit ''GET''"
    by blast
  then show ?thesis
  proof cases
    case chat
    obtain x fx where c: "chat P provider req res = (x, fx)"
      by (cases "chat P provider req res")
    show ?thesis
    proof (cases x)
      case (Inl e)
      with c chat rt show ?thesis by simp
    next
      case (Inr r)
      with c have "chat P provider req res = (Inr r, fx)" by simp
      then have "\<forall>h. h \<noteq> ''Content-Type'' \<longrightarrow> headers r h = headers res h"
        by (simp add: chat_headers)
      with c Inr chat rt show ?thesis by simp
    qed
  next
    case static
    obtain r fx where "static P res pathname (toLowerCase P (extname P pathname)) = (Inr r, fx)"
      and "\<forall>h. h \<noteq> ''Content-Type'' \<longrightarrow> headers r h = headers res h"
      using static_answers by blast
    with static rt show ?thesis by simp
  next
    case none
    with rt show ?thesis by simp
  qed
qed

lemma server_answers:
  assumes "cors E req = Inr res"
  shows "\<exists>r fx. server E P provider req = (Inr r, fx)
           \<and> (\<forall>h. h \<noteq> ''Content-Type'' \<longrightarrow> headers r h = headers res h)"
proof (cases "req_method req = lit ''OPTIONS''")
  case True
  with assms show ?thesis by (simp add: server_options)
next
  case False
  from route_answers [OF False, of P provider res] show ?thesis
    using assms False by (auto simp: server_def)
qed

text \<open>
  Claim C7. When the value for \<open>Access-Control-Allow-Origin\<close> is one that \<open>setHeader\<close>
  accepts, every request gets a response; and every response that is sent carries
  \<open>Access-Control-Allow-Methods: GET, POST, OPTIONS\<close>,
  \<open>Access-Control-Allow-Headers: Content-Type\<close> and an \<open>Access-Control-Allow-Origin\<close> that
  is \<open>https://\<close> followed by \<open>VERCEL_URL\<close> when that variable is set and not empty, and
  otherwise the \<open>Origin\<close> header of the request (\<open>*\<close> when the request has none).
\<close>

theorem cors_headers_on_every_response:
  "(header_value_ok (allowed_origin E req) \<longrightarrow> (\<exists>res fx. server E P provider req = (Inr res, fx)))
   \<and> (\<forall>res fx. server E P provider req = (Inr res, fx) \<longrightarrow>
        headers res ''Access-Control-Allow-Methods'' = Some (lit ''GET, POST, OPTIONS'')
        \<and> headers res ''Access-Control-Allow-Headers'' = Some (lit ''Content-Type'')
        \<and> (VERCEL_URL E = Some u \<and> u \<noteq> [] \<longrightarrow>
             headers res ''Access-Control-Allow-Origin'' = Some (lit ''https://'' @ u))
        \<and> ((VERCEL_URL E = None \<or> VERCEL_URL E = Some []) \<and> origin req = Some v \<and> v \<noteq> [] \<longrightarrow>
             headers res ''Access-Control-Allow-Origin'' = Some v)
        \<and> ((VERCEL_URL E = None \<or> VERCEL_URL E = Some [])
             \<and> (origin req = None \<or> origin req = Some []) \<longrightarrow>
             headers res ''Access-Control-Allow-Origin'' = Some (lit ''*'')))"
proof -
  have 1: "\<exists>res fx. server E P provider req = (Inr res, fx)"
    if "header_value_ok (allowed_origin E req)"
    using server_answers [OF cors_ok [OF that], of P provider] by blast
  have 2: "headers res ''Access-Control-Allow-Methods'' = Some (lit ''GET, POST, OPTIONS'')
        \<and> headers res ''Access-Control-Allow-Headers'' = Some (lit ''Content-Type'')
        \<and> headers res ''Access-Control-Allow-Origin'' = Some (allowed_origin E req)"
    if r: "server E P provider req = (Inr res, fx)" for res fx
  proof -
    have ok: "header_value_ok (allowed_origin E req)"
    proof (rule ccontr)
      assume "\<not> header_value_ok (allowed_origin E req)"
      then have "server E P provider req =
          (Inl (Error_js (lit ''Invalid character in header content [\"Access-Control-Allow-Origin\"]'')), [])"
        by (rule refused_origin_exits)
      with r show False by simp
    qed
    from server_answers [OF cors_ok [OF ok], of P provider] r show ?thesis by auto
  qed
  show ?thesis
    using 1 2 by (auto simp: allowed_origin_cases)
qed

lemma prod_origin:
  "allowed_origin env_prod req = lit ''https://cheesa.vercel.app''"
  "header_value_ok (allowed_origin env_prod req)"
  by (simp_all add: allowed_origin_def env_prod_def lit_append)
     (simp_all add: header_value_ok_def lit_def)

theorem cors_headers_on_every_response_witness:
  "isl (fst (server env_prod node0 answering (request_to ''GET'' ''/''))) = False
   \<and> headers (projr (fst (server env_prod node0 answering (request_to ''GET'' ''/'')))) ''Access-Control-Allow-Origin''
     = Some (lit ''https://cheesa.vercel.app'')
   \<and> headers (projr (fst (server env_dev node0 answering (post_chat [])))) ''Access-Control-Allow-Origin''
     = Some (lit ''http://localhost:5173'')
   \<and> headers (projr (fst (server env_dev node0 answering (request_to ''PUT'' ''/x'')))) ''Access-Control-Allow-Origin''
     = Some (lit ''*'')
   \<and> headers (projr (fst (server env_dev node0 answering (request_to ''PUT'' ''/x'')))) ''Access-Control-Allow-Methods''
     = Some (lit ''GET, POST, OPTIONS'')
   \<and> headers (projr (fst (server env_dev node0 answering (request_to ''PUT'' ''/x'')))) ''Access-Control-Allow-Headers''
     = Some (lit ''Content-Type'')"
  using cors_headers_on_every_response [of env_prod "request_to ''GET'' ''/''" node0 answering
      "lit ''cheesa.vercel.app''" "[]"]
    cors_headers_on_every_response [of env_dev "post_chat []" node0 answering
      "[]" "lit ''http://localhost:5173''"]
    cors_headers_on_every_response [of env_dev "request_to ''PUT'' ''/x''" node0 answering "[]" "[]"]
    prod_origin(2) [of "request_to ''GET'' ''/''"] dev_origin(2) [of "[]"]
    dev_origin(4) [of "''PUT''" "''/x''"]
  by (auto simp: env_prod_def env_dev_def post_chat_def request_to_def lit_append)

section \<open>Preflight\<close>

text \<open>
  Claim C5. An \<open>OPTIONS\<close> request, whatever its target, is answered with status 204,
  nothing written to the body and exactly the three CORS headers, and nothing else
  happens: no call to the provider and no access to the file system, whatever the runtime
  and the provider are. (The value for \<open>Access-Control-Allow-Origin\<close> is one that
  \<open>setHeader\<close> accepts.)
\<close>

theorem options_is_answered_204:
  assumes "req_method req = lit ''OPTIONS''" and "header_value_ok (allowed_origin E req)"
  shows "server E P provider req =
         (Inr \<lparr>statusCode = 204,
           headers = [''Access-Control-Allow-Origin'' \<mapsto> allowed_origin E req,
                      ''Access-Control-Allow-Methods'' \<mapsto> lit ''GET, POST, OPTIONS'',
                      ''Access-Control-Allow-Headers'' \<mapsto> lit ''Content-Type''],
           body = []\<rparr>, [])"
  by (simp add: server_options [OF cors_ok [OF assms(2)] assms(1)])

theorem options_is_answered_204_witness:
  "server env_dev node_bare failing (request_to ''OPTIONS'' ''/api/chat'') =
     (Inr \<lparr>statusCode = 204,
           headers = [''Access-Control-Allow-Origin'' \<mapsto> lit ''*'',
                      ''Access-Control-Allow-Methods'' \<mapsto> lit ''GET, POST, OPTIONS'',
                      ''Access-Control-Allow-Headers'' \<mapsto> lit ''Content-Type''],
           body = []\<rparr>, [])"
proof -
  have m: "req_method (request_to ''OPTIONS'' ''/api/chat'') = lit ''OPTIONS''"
    by (simp add: request_to_def)
  show ?thesis
    using options_is_answered_204 [OF m dev_origin(4), of node_bare failing]
    by (simp add: dev_origin(3))
qed

section \<open>Startup\<close>




section \<open>Failures of the chat endpoint\<close>

text \<open>
  Claim C3, as the code has it. For a \<open>POST /api/chat\<close> request: a body that
  \<open>JSON.parse\<close> rejects, and a provider call that throws an \<open>Error\<close>, are answered with
  status 500 and the JSON body \<^verbatim>\<open>{error: "Internal server error", details: m}\<close>, \<open>m\<close>
  the message of the error; a text that the provider returns is relayed with status 200
  whatever the text is; and nothing escapes the handler, so the process does not exit.
  (The value for \<open>Access-Control-Allow-Origin\<close> is one that \<open>setHeader\<close> accepts: with any
  other the process does exit, see \<open>refused_origin_exits\<close>.)
\<close>

theorem chat_failure_is_500:
  assumes "req_method req = lit ''POST''" and "pathname_of P req = Inr (lit ''/api/chat'')"
    and "header_value_ok (allowed_origin E req)"
  shows "(data req = Inr d \<and> JSON_parse P d = Inl m \<longrightarrow>
            server E P provider req =
              (Inr \<lparr>statusCode = 500,
                  headers = [''Access-Control-Allow-Origin'' \<mapsto> allowed_origin E req,
                             ''Access-Control-Allow-Methods'' \<mapsto> lit ''GET, POST, OPTIONS'',
                             ''Access-Control-Allow-Headers'' \<mapsto> lit ''Content-Type'',
                             ''Content-Type'' \<mapsto> lit ''application/json; charset=utf-8''],
                  body = [Body_Json (JObj [(lit ''error'', JStr (lit ''Internal server error'')),
                                           (lit ''details'', JStr m)])]\<rparr>, []))
         \<and> (readJson P req = Inr b \<and> trim (message_of b) \<noteq> []
              \<and> map_history P (conversationHistory_of b) = Inr turns
              \<and> provider (system_turn # greeting_turn # turns) (message_of b) = Inl (Error_js m) \<longrightarrow>
            server E P provider req =
              (Inr \<lparr>statusCode = 500,
                  headers = [''Access-Control-Allow-Origin'' \<mapsto> allowed_origin E req,
                             ''Access-Control-Allow-Methods'' \<mapsto> lit ''GET, POST, OPTIONS'',
                             ''Access-Control-Allow-Headers'' \<mapsto> lit ''Content-Type'',
                             ''Content-Type'' \<mapsto> lit ''application/json; charset=utf-8''],
                  body = [Body_Json (JObj [(lit ''error'', JStr (lit ''Internal server error'')),
                                           (lit ''details'', JStr m)])]\<rparr>,
               [Provider_Call (system_turn # greeting_turn # turns) (message_of b)]))
         \<and> (readJson P req = Inr b \<and> trim (message_of b) \<noteq> []
              \<and> map_history P (conversationHistory_of b) = Inr turns
              \<and> provider (system_turn # greeting_turn # turns) (message_of b) = Inr reply \<longrightarrow>
            server E P provider req =
              (Inr \<lparr>statusCode = 200,
                  headers = [''Access-Control-Allow-Origin'' \<mapsto> allowed_origin E req,
                             ''Access-Control-Allow-Methods'' \<mapsto> lit ''GET, POST, OPTIONS'',
                             ''Access-Control-Allow-Headers'' \<mapsto> lit ''Content-Type'',
                             ''Content-Type'' \<mapsto> lit ''application/json; charset=utf-8''],
                  body = [Body_Json (JObj [(lit ''response'', JStr reply)])]\<rparr>,
               [Provider_Call (system_turn # greeting_turn # turns) (message_of b)]))
         \<and> \<not> process_exits (server E P provider req)"
proof -
  note s = server_chat [OF cors_ok [OF assms(3)] assms(1,2)]
  have 1: "server E P provider req =
      (Inr \<lparr>statusCode = 500,
                  headers = [''Access-Control-Allow-Origin'' \<mapsto> allowed_origin E req,
                             ''Access-Control-Allow-Methods'' \<mapsto> lit ''GET, POST, OPTIONS'',
                             ''Access-Control-Allow-Headers'' \<mapsto> lit ''Content-Type'',
                             ''Content-Type'' \<mapsto> lit ''application/json; charset=utf-8''],
                  body = [Body_Json (JObj [(lit ''error'', JStr (lit ''Internal server error'')),
                                           (lit ''details'', JStr m)])]\<rparr>, [])"
    if "data req = Inr d" and "JSON_parse P d = Inl m"
  proof -
    from that have "readJson P req = Inl (Error_js m)" by (simp add: readJson_def)
    then show ?thesis by (simp add: s chat_unreadable sendJson_eq)
  qed
  have 2: "server E P provider req =
      (Inr \<lparr>statusCode = 500,
                  headers = [''Access-Control-Allow-Origin'' \<mapsto> allowed_origin E req,
                             ''Access-Control-Allow-Methods'' \<mapsto> lit ''GET, POST, OPTIONS'',
                             ''Access-Control-Allow-Headers'' \<mapsto> lit ''Content-Type'',
                             ''Content-Type'' \<mapsto> lit ''application/json; charset=utf-8''],
                  body = [Body_Json (JObj [(lit ''error'', JStr (lit ''Internal server error'')),
                                           (lit ''details'', JStr m)])]\<rparr>,
       [Provider_Call (system_turn # greeting_turn # turns) (message_of b)])"
    if "readJson P req = Inr b" and "trim (message_of b) \<noteq> []"
      and "map_history P (conversationHistory_of b) = Inr turns"
      and "provider (system_turn # greeting_turn # turns) (message_of b) = Inl (Error_js m)"
    using that by (simp add: s chat_relay chat_catch_def sendJson_eq)
  have 3: "server E P provider req =
      (Inr \<lparr>statusCode = 200,
                  headers = [''Access-Control-Allow-Origin'' \<mapsto> allowed_origin E req,
                             ''Access-Control-Allow-Methods'' \<mapsto> lit ''GET, POST, OPTIONS'',
                             ''Access-Control-Allow-Headers'' \<mapsto> lit ''Content-Type'',
                             ''Content-Type'' \<mapsto> lit ''application/json; charset=utf-8''],
                  body = [Body_Json (JObj [(lit ''response'', JStr reply)])]\<rparr>,
       [Provider_Call (system_turn # greeting_turn # turns) (message_of b)])"
    if "readJson P req = Inr b" and "trim (message_of b) \<noteq> []"
      and "map_history P (conversationHistory_of b) = Inr turns"
      and "provider (system_turn # greeting_turn # turns) (message_of b) = Inr reply"
    using that by (simp add: s chat_relay sendJson_eq)
  have 4: "\<not> process_exits (server E P provider req)"
    using server_answers [OF cors_ok [OF assms(3)], of P provider]
    by (auto simp: process_exits_def)
  from 1 2 3 4 show ?thesis by blast
qed

text \<open>
  What the provider throws need not be an \<open>Error\<close>. When it is \<open>null\<close>, reading its
  message throws inside the inner \<open>catch\<close>, and the outer \<open>catch\<close> answers with the plain
  text of status 500.
\<close>

lemma thrown_null_is_caught_outside:
  assumes "req_method req = lit ''POST''" and "pathname_of P req = Inr (lit ''/api/chat'')"
    and "header_value_ok (allowed_origin E req)"
    and "readJson P req = Inr b" and "trim (message_of b) \<noteq> []"
    and "map_history P (conversationHistory_of b) = Inr turns"
    and "provider (system_turn # greeting_turn # turns) (message_of b) = Inl Null_js"
  shows "server E P provider req =
         (Inr \<lparr>statusCode = 500,
           headers = [''Access-Control-Allow-Origin'' \<mapsto> allowed_origin E req,
                      ''Access-Control-Allow-Methods'' \<mapsto> lit ''GET, POST, OPTIONS'',
                      ''Access-Control-Allow-Headers'' \<mapsto> lit ''Content-Type''],
           body = [Body_Text (lit ''Internal Server Error'')]\<rparr>,
          [Provider_Call (system_turn # greeting_turn # turns) (message_of b)])"
  using assms(4-7)
  by (simp add: server_chat [OF cors_ok [OF assms(3)] assms(1,2)] chat_relay chat_catch_def)

lemma node0_hi:
  \<open>readJson node0 (post_chat (lit ''{"message":"hi"}'')) = Inr (JObj [(lit ''message'', JStr (lit ''hi''))])\<close>
  \<open>message_of (JObj [(lit ''message'', JStr (lit ''hi''))]) = lit ''hi''\<close>
  \<open>trim (message_of (JObj [(lit ''message'', JStr (lit ''hi''))])) \<noteq> []\<close>
  \<open>map_history node0 (conversationHistory_of (JObj [(lit ''message'', JStr (lit ''hi''))])) = Inr []\<close>
proof -
  show \<open>readJson node0 (post_chat (lit ''{"message":"hi"}'')) = Inr (JObj [(lit ''message'', JStr (lit ''hi''))])\<close>
    by (simp add: node0_readJson demo_parse_def)
  show \<open>message_of (JObj [(lit ''message'', JStr (lit ''hi''))]) = lit ''hi''\<close>
    by (simp add: message_of_def)
  show \<open>trim (message_of (JObj [(lit ''message'', JStr (lit ''hi''))])) \<noteq> []\<close>
    by (simp add: message_of_def trim_Nil_iff) (simp add: lit_def is_space_def)
  show \<open>map_history node0 (conversationHistory_of (JObj [(lit ''message'', JStr (lit ''hi''))])) = Inr []\<close>
    by (simp add: conversationHistory_of_def)
qed

theorem chat_failure_is_500_witness:
  \<open>server env_dev node0 answering (post_chat (lit ''{"message":'')) =
     (Inr \<lparr>statusCode = 500,
           headers = [''Access-Control-Allow-Origin'' \<mapsto> lit ''http://localhost:5173'',
                      ''Access-Control-Allow-Methods'' \<mapsto> lit ''GET, POST, OPTIONS'',
                      ''Access-Control-Allow-Headers'' \<mapsto> lit ''Content-Type'',
                      ''Content-Type'' \<mapsto> lit ''application/json; charset=utf-8''],
           body = [Body_Json (JObj [(lit ''error'', JStr (lit ''Internal server error'')),
                                    (lit ''details'', JStr (lit ''Unexpected end of JSON input''))])]\<rparr>,
      [])
   \<and> server env_dev node0 failing (post_chat (lit ''{"message":"hi"}'')) =
     (Inr \<lparr>statusCode = 500,
           headers = [''Access-Control-Allow-Origin'' \<mapsto> lit ''http://localhost:5173'',
                      ''Access-Control-Allow-Methods'' \<mapsto> lit ''GET, POST, OPTIONS'',
                      ''Access-Control-Allow-Headers'' \<mapsto> lit ''Content-Type'',
                      ''Content-Type'' \<mapsto> lit ''application/json; charset=utf-8''],
           body = [Body_Json (JObj [(lit ''error'', JStr (lit ''Internal server error'')),
                                    (lit ''details'', JStr (lit ''fetch failed''))])]\<rparr>,
      [Provider_Call [system_turn, greeting_turn] (lit ''hi'')])
   \<and> server env_dev node0 answering (post_chat (lit ''{"message":"hi"}'')) =
     (Inr \<lparr>statusCode = 200,
           headers = [''Access-Control-Allow-Origin'' \<mapsto> lit ''http://localhost:5173'',
                      ''Access-Control-Allow-Methods'' \<mapsto> lit ''GET, POST, OPTIONS'',
                      ''Access-Control-Allow-Headers'' \<mapsto> lit ''Content-Type'',
                      ''Content-Type'' \<mapsto> lit ''application/json; charset=utf-8''],
           body = [Body_Json (JObj [(lit ''response'', JStr (lit ''Welcome to CHEESA''))])]\<rparr>,
      [Provider_Call [system_turn, greeting_turn] (lit ''hi'')])
   \<and> \<not> process_exits (server env_dev node0 failing (post_chat (lit ''{"message":"hi"}'')))\<close>
proof -
  have d: \<open>data (post_chat (lit ''{"message":'')) = Inr (lit ''{"message":'')\<close>
    by (simp add: post_chat_def)
  have p: \<open>JSON_parse node0 (lit ''{"message":'') = Inl (lit ''Unexpected end of JSON input'')\<close>
    by (simp add: node0_def demo_parse_def)
  have f: "failing [system_turn, greeting_turn] (lit ''hi'') = Inl (Error_js (lit ''fetch failed''))"
    by (simp add: failing_def)
  have a: "answering [system_turn, greeting_turn] (lit ''hi'') = Inr (lit ''Welcome to CHEESA'')"
    by (simp add: answering_def)
  note T = chat_failure_is_500 [OF post_chat_method node0_pathname_chat dev_origin(2)]
  have 1: \<open>server env_dev node0 answering (post_chat (lit ''{"message":'')) =
     (Inr \<lparr>statusCode = 500,
           headers = [''Access-Control-Allow-Origin'' \<mapsto> lit ''http://localhost:5173'',
                      ''Access-Control-Allow-Methods'' \<mapsto> lit ''GET, POST, OPTIONS'',
                      ''Access-Control-Allow-Headers'' \<mapsto> lit ''Content-Type'',
                      ''Content-Type'' \<mapsto> lit ''application/json; charset=utf-8''],
           body = [Body_Json (JObj [(lit ''error'', JStr (lit ''Internal server error'')),
                                    (lit ''details'', JStr (lit ''Unexpected end of JSON input''))])]\<rparr>,
      [])\<close>
    using T [where d = \<open>lit ''{"message":''\<close> and m = "lit ''Unexpected end of JSON input''"
          and provider = answering, THEN conjunct1] d p
    by (simp add: dev_origin(1))
  have 2: \<open>server env_dev node0 failing (post_chat (lit ''{"message":"hi"}'')) =
     (Inr \<lparr>statusCode = 500,
           headers = [''Access-Control-Allow-Origin'' \<mapsto> lit ''http://localhost:5173'',
                      ''Access-Control-Allow-Methods'' \<mapsto> lit ''GET, POST, OPTIONS'',
                      ''Access-Control-Allow-Headers'' \<mapsto> lit ''Content-Type'',
                      ''Content-Type'' \<mapsto> lit ''application/json; charset=utf-8''],
           body = [Body_Json (JObj [(lit ''error'', JStr (lit ''Internal server error'')),
                                    (lit ''details'', JStr (lit ''fetch failed''))])]\<rparr>,
      [Provider_Call [system_turn, greeting_turn] (lit ''hi'')])\<close>
    using T [where b = "JObj [(lit ''message'', JStr (lit ''hi''))]" and turns = "[]"
          and provider = failing and m = "lit ''fetch failed''",
        THEN conjunct2, THEN conjunct1]
      node0_hi(1,3,4) f
    by (simp add: node0_hi(2) dev_origin(1))
  have 3: \<open>server env_dev node0 answering (post_chat (lit ''{"message":"hi"}'')) =
     (Inr \<lparr>statusCode = 200,
           headers = [''Access-Control-Allow-Origin'' \<mapsto> lit ''http://localhost:5173'',
                      ''Access-Control-Allow-Methods'' \<mapsto> lit ''GET, POST, OPTIONS'',
                      ''Access-Control-Allow-Headers'' \<mapsto> lit ''Content-Type'',
                      ''Content-Type'' \<mapsto> lit ''application/json; charset=utf-8''],
           body = [Body_Json (JObj [(lit ''response'', JStr (lit ''Welcome to CHEESA''))])]\<rparr>,
      [Provider_Call [system_turn, greeting_turn] (lit ''hi'')])\<close>
    using T [where b = "JObj [(lit ''message'', JStr (lit ''hi''))]" and turns = "[]"
          and provider = answering and reply = "lit ''Welcome to CHEESA''",
        THEN conjunct2, THEN conjunct2, THEN conjunct1]
      node0_hi(1,3,4) a
    by (simp add: node0_hi(2) dev_origin(1))
  have 4: \<open>\<not> process_exits (server env_dev node0 failing (post_chat (lit ''{"message":"hi"}'')))\<close>
    by (rule T [THEN conjunct2, THEN conjunct2, THEN conjunct2])
  from 1 2 3 4 show ?thesis by blast
qed

text \<open>
  The claim as the specification states it fails for a provider that returns no usable
  text: the empty reply of \<open>silent\<close> is relayed with status 200.
\<close>

theorem empty_reply_is_relayed_200:
  \<open>silent [system_turn, greeting_turn] (lit ''hi'') = Inr []
   \<and> server env_dev node0 silent (post_chat (lit ''{"message":"hi"}'')) =
     (Inr \<lparr>statusCode = 200,
           headers = [''Access-Control-Allow-Origin'' \<mapsto> lit ''http://localhost:5173'',
                      ''Access-Control-Allow-Methods'' \<mapsto> lit ''GET, POST, OPTIONS'',
                      ''Access-Control-Allow-Headers'' \<mapsto> lit ''Content-Type'',
                      ''Content-Type'' \<mapsto> lit ''application/json; charset=utf-8''],
           body = [Body_Json (JObj [(lit ''response'', JStr [])])]\<rparr>,
      [Provider_Call [system_turn, greeting_turn] (lit ''hi'')])\<close>
proof -
  have s: "silent [system_turn, greeting_turn] (lit ''hi'') = Inr []"
    by (simp add: silent_def)
  have "chat node0 silent (post_chat (lit ''{\"message\":\"hi\"}'')) res =
      (sendJson res 200 (JObj [(lit ''response'', JStr [])]),
       [Provider_Call [system_turn, greeting_turn] (lit ''hi'')])" for res
    using chat_relay [OF node0_hi(1) node0_hi(3) node0_hi(4), of silent res]
    by (simp add: node0_hi(2) s)
  then show ?thesis
    by (simp add: s server_chat [OF cors_ok [OF dev_origin(2)] post_chat_method node0_pathname_chat]
          sendJson_eq dev_origin(1))
qed

section \<open>Static files\<close>















end
